theory Spec2Isabelle
  imports Main
begin

section \<open>The build reporter: one run of \<open>src/index.ts\<close>\<close>

text \<open>
  The action reads seven inputs, builds one HTTP request (POST for \<open>report-build\<close>,
  PATCH for \<open>update-status\<close>), and maps the response to two outputs or to one failure
  message. The only function of the source is \<open>run\<close>; it is embedded below with its
  collaborators made explicit:
  \<^item> \<open>core.getInput\<close> is a parameter \<open>getInput name required\<close> that returns the value or
    throws;
  \<^item> the HTTP client is a parameter \<open>client\<close> from the request sent to the response
    received (or the error thrown by the transport);
  \<^item> \<open>core.info\<close>, the request, \<open>core.setOutput\<close> and \<open>core.setFailed\<close> are the
    events of a log, in the order in which the code performs them; an event records
    the call and its arguments, and the three calls into the library return normally.
\<close>

subsection \<open>Values\<close>

text \<open>
  Whatever the code can throw: an \<open>Error\<close> instance with its message (a \<open>TypeError\<close> is
  one), or some other value, which the \<open>catch\<close> of \<open>run\<close> reports generically.
\<close>

datatype thrown = Error string | NotAnError

text \<open>
  A value parsed from JSON. A number is given by the decimal text that the language
  prints for it (\<open>String(n)\<close>): \<open>run\<close> never computes with a number, it only tests
  it and prints it. An object is the list of its own properties in enumeration order,
  with distinct keys.
\<close>

datatype json_value =
  JNull
| JBool bool
| JNum string
| JStr string
| JArr "json_value list"
| JObj "(string \<times> json_value) list"

text \<open>
  A response as \<open>run\<close> sees it: the status code and the parsed body
  (\<open>response.result\<close>), which is \<open>null\<close> when the body was empty or not JSON, and
  otherwise whatever JSON value the service sent.
\<close>

record response =
  statusCode :: nat
  result :: json_value

datatype http_method = POST | PATCH

record request =
  http_method :: http_method
  url :: string
  headers :: "(string \<times> string) list"
  json :: "(string \<times> string) list"

type_synonym client = "request \<Rightarrow> thrown + response"

text \<open>The seven inputs, once read (lines 20 to 26).\<close>

record InvocationConfig =
  apiKey :: string
  apiUrl :: string
  serviceId :: string
  action :: string
  buildId :: string
  environment :: string
  status :: string

text \<open>
  A value handed to \<open>core.setOutput\<close>: \<open>undefined\<close>; a JSON value; the member that a
  plain object inherits from \<open>Object.prototype\<close> under the given key; or
  \<open>Member_or d k s\<close>, the value of \<open>d[k] || s\<close> for a \<open>d\<close> that is a string, an array, a
  number or a boolean, whose members are left to the language.
\<close>

datatype jsvalue =
  Undefined
| Value json_value
| Inherited string
| Member_or json_value string string

datatype event =
  Info string
| Request request
| SetOutput string jsvalue
| SetFailed string

subsection \<open>The JavaScript expressions that \<open>run\<close> uses\<close>

definition apostrophe :: string where
  "apostrophe = [CHR 0x27]"

text \<open>\<open>xs.join(sep)\<close> on an array of strings.\<close>

fun join :: "string \<Rightarrow> string list \<Rightarrow> string" where
  "join sep [] = []"
| "join sep [x] = x"
| "join sep (x # y # ys) = x @ sep @ join sep (y # ys)"

text \<open>A status code inside a template literal: its decimal digits.\<close>

fun number_to_string :: "nat \<Rightarrow> string" where
  "number_to_string n =
     (if n < 10 then [''0123456789'' ! n]
      else number_to_string (n div 10) @ [''0123456789'' ! (n mod 10)])"

declare number_to_string.simps [simp del]

text \<open>
  \<open>b.name\<close> for one of the names \<open>buildId\<close>, \<open>deployments\<close> and \<open>error\<close> on a body
  \<open>b\<close> that is not \<open>null\<close>: the own property of an object, and \<open>undefined\<close>
  (\<open>None\<close>) otherwise, since no built-in prototype has a member of these names. On
  \<open>null\<close> the read throws; \<open>run\<close> tests for it before. With \<open>?.\<close> the read of
  \<open>null\<close> gives \<open>undefined\<close>, which is the value here.
\<close>

definition field :: "json_value \<Rightarrow> string \<Rightarrow> json_value option" where
  "field b name = (case b of JObj kvs \<Rightarrow> map_of kvs name | _ \<Rightarrow> None)"

text \<open>The values that count as false in a condition.\<close>

definition truthy :: "json_value \<Rightarrow> bool" where
  "truthy v =
     (case v of
        JNull \<Rightarrow> False
      | JBool b \<Rightarrow> b
      | JNum r \<Rightarrow> r \<noteq> ''0''
      | JStr s \<Rightarrow> s \<noteq> []
      | JArr xs \<Rightarrow> True
      | JObj kvs \<Rightarrow> True)"

text \<open>\<open>a || b\<close> where \<open>a\<close> is a JSON value or \<open>undefined\<close> and \<open>b\<close> a string.\<close>

definition or_else :: "json_value option \<Rightarrow> string \<Rightarrow> json_value" where
  "or_else a b = (case a of None \<Rightarrow> JStr b | Some v \<Rightarrow> if truthy v then v else JStr b)"

text \<open>
  The conversion of a value to a string, as \<open>new Error(v)\<close> performs it. An array joins
  its elements with commas, \<open>null\<close> elements giving the empty string. An object gives
  \<open>[object Object]\<close>, unless it has an own property \<open>toString\<close>, which is no
  function: then the conversion throws (\<open>None\<close>).
\<close>

fun to_string :: "json_value \<Rightarrow> string option" where
  "to_string JNull = Some ''null''"
| "to_string (JBool b) = Some (if b then ''true'' else ''false'')"
| "to_string (JNum r) = Some r"
| "to_string (JStr s) = Some s"
| "to_string (JArr xs) =
     map_option (join '','')
       (those (map (\<lambda>x. if x = JNull then Some [] else to_string x) xs))"
| "to_string (JObj kvs) =
     (if ''toString'' \<in> fst ` set kvs then None else Some ''[object Object]'')"

text \<open>\<open>new Error(v)\<close>, thrown; the \<open>TypeError\<close> of a failed conversion is thrown instead.\<close>

definition new_Error :: "json_value \<Rightarrow> thrown" where
  "new_Error v =
     (case to_string v of
        Some m \<Rightarrow> Error m
      | None \<Rightarrow> Error ''Cannot convert object to primitive value'')"

text \<open>
  The message of the \<open>TypeError\<close> that reading property \<open>p\<close> of \<open>null\<close> or of
  \<open>undefined\<close> throws, in the wording of V8 (Node.js).
\<close>

definition cannot_read :: "string \<Rightarrow> string \<Rightarrow> string" where
  "cannot_read what p =
     ''Cannot read properties of '' @ what @ '' (reading '' @ apostrophe @ p @ apostrophe @ '')''"

text \<open>The keys that every plain object inherits from \<open>Object.prototype\<close>.\<close>

definition Object_prototype :: "string list" where
  "Object_prototype =
     [''constructor'', ''__defineGetter__'', ''__defineSetter__'', ''hasOwnProperty'',
      ''__lookupGetter__'', ''__lookupSetter__'', ''isPrototypeOf'',
      ''propertyIsEnumerable'', ''toString'', ''valueOf'', ''__proto__'',
      ''toLocaleString'']"

text \<open>
  \<open>d[k] || s\<close> for a \<open>d\<close> that is neither \<open>null\<close> nor \<open>undefined\<close>. On an object:
  the own property under \<open>k\<close> when it is truthy; \<open>s\<close> when it is falsy, or when there
  is no such property and nothing is inherited under \<open>k\<close>; the inherited member
  otherwise, which is a function or an object and so truthy. On a string, an array, a
  number or a boolean the members are those of the language (characters, elements,
  \<open>length\<close>, methods), and the value is left as \<open>Member_or d k s\<close>.
\<close>

definition lookup_or :: "json_value \<Rightarrow> string \<Rightarrow> string \<Rightarrow> jsvalue" where
  "lookup_or d k s =
     (case d of
        JObj ds \<Rightarrow>
          (case map_of ds k of
             Some v \<Rightarrow> if truthy v then Value v else Value (JStr s)
           | None \<Rightarrow> if k \<in> set Object_prototype then Inherited k else Value (JStr s))
      | _ \<Rightarrow> Member_or d k s)"

definition of_field :: "json_value option \<Rightarrow> jsvalue" where
  "of_field f = (case f of None \<Rightarrow> Undefined | Some v \<Rightarrow> Value v)"

text \<open>
  \<open>JSON.stringify\<close> on a string: the quoted string, with the escapes of the language
  standard.
\<close>

definition hex_digit :: "nat \<Rightarrow> char" where
  "hex_digit d = ''0123456789abcdef'' ! (d mod 16)"

definition quote_char :: "char \<Rightarrow> string" where
  "quote_char c =
     (if c = CHR 0x22 then [CHR 0x5C, CHR 0x22]
      else if c = CHR 0x5C then [CHR 0x5C, CHR 0x5C]
      else if c = CHR 0x08 then [CHR 0x5C, CHR ''b'']
      else if c = CHR 0x0C then [CHR 0x5C, CHR ''f'']
      else if c = CHR 0x0A then [CHR 0x5C, CHR ''n'']
      else if c = CHR 0x0D then [CHR 0x5C, CHR ''r'']
      else if c = CHR 0x09 then [CHR 0x5C, CHR ''t'']
      else if (of_char c :: nat) < 32
        then [CHR 0x5C, CHR ''u'', CHR ''0'', CHR ''0'',
              hex_digit (of_char c div 16), hex_digit (of_char c)]
      else [c])"

definition quote :: "string \<Rightarrow> string" where
  "quote s = [CHR 0x22] @ concat (map quote_char s) @ [CHR 0x22]"

text \<open>
  \<open>JSON.stringify\<close> on a parsed value, without spaces; a number that is not finite
  prints as \<open>null\<close>.
\<close>

fun stringify :: "json_value \<Rightarrow> string" where
  "stringify JNull = ''null''"
| "stringify (JBool b) = (if b then ''true'' else ''false'')"
| "stringify (JNum r) = (if r = ''Infinity'' \<or> r = ''-Infinity'' then ''null'' else r)"
| "stringify (JStr s) = quote s"
| "stringify (JArr xs) = ''['' @ join '','' (map stringify xs) @ '']''"
| "stringify (JObj kvs) =
     ''{'' @ join '','' (map (\<lambda>(k, v). quote k @ '':'' @ stringify v) kvs) @ ''}''"

text \<open>\<open>JSON.stringify(result.deployments)\<close>: \<open>undefined\<close> for \<open>undefined\<close>.\<close>

definition JSON_stringify :: "json_value option \<Rightarrow> jsvalue" where
  "JSON_stringify d = (case d of None \<Rightarrow> Undefined | Some v \<Rightarrow> Value (JStr (stringify v)))"

subsection \<open>\<open>run\<close>\<close>

text \<open>
  Lines 20 to 26: the inputs are read in this order; \<open>api-key\<close>, \<open>service-id\<close>,
  \<open>action\<close> and \<open>build-id\<close> with \<open>required: true\<close>; an empty \<open>api-url\<close> becomes the
  default. The first call that throws ends the reading.
\<close>

definition resolve_inputs :: "(string \<Rightarrow> bool \<Rightarrow> thrown + string) \<Rightarrow> thrown + InvocationConfig" where
  "resolve_inputs getInput =
     (case getInput ''api-key'' True of Inl e \<Rightarrow> Inl e | Inr k \<Rightarrow>
      case getInput ''api-url'' False of Inl e \<Rightarrow> Inl e | Inr u \<Rightarrow>
      case getInput ''service-id'' True of Inl e \<Rightarrow> Inl e | Inr s \<Rightarrow>
      case getInput ''action'' True of Inl e \<Rightarrow> Inl e | Inr a \<Rightarrow>
      case getInput ''build-id'' True of Inl e \<Rightarrow> Inl e | Inr b \<Rightarrow>
      case getInput ''environment'' False of Inl e \<Rightarrow> Inl e | Inr env \<Rightarrow>
      case getInput ''status'' False of Inl e \<Rightarrow> Inl e | Inr st \<Rightarrow>
        Inr \<lparr>apiKey = k, apiUrl = (if u = [] then ''https://gitlaunch.dev'' else u),
             serviceId = s, action = a, buildId = b, environment = env, status = st\<rparr>)"

text \<open>Lines 28 to 33: the headers that the client sends with every request.\<close>

definition client_headers :: "InvocationConfig \<Rightarrow> (string \<times> string) list" where
  "client_headers cfg =
     [(''Authorization'', ''Bearer '' @ apiKey cfg), (''Content-Type'', ''application/json'')]"

text \<open>Line 35.\<close>

definition baseUrl :: "InvocationConfig \<Rightarrow> string" where
  "baseUrl cfg = apiUrl cfg @ ''/api/v1/services/'' @ serviceId cfg"

definition validStatuses :: "string list" where
  "validStatuses = [''deploying'', ''deployed'', ''error'', ''cancelled'']"

text \<open>
  The argument of \<open>client.postJson\<close> (lines 40 to 43) and of \<open>client.patchJson\<close>
  (lines 81 to 84): the URL and the object sent, with the headers of the client.
\<close>

definition report_build_request :: "InvocationConfig \<Rightarrow> request" where
  "report_build_request cfg =
     \<lparr>http_method = POST, url = baseUrl cfg @ ''/builds'',
      headers = client_headers cfg, json = [(''buildId'', buildId cfg)]\<rparr>"

definition update_status_request :: "InvocationConfig \<Rightarrow> request" where
  "update_status_request cfg =
     \<lparr>http_method = PATCH,
      url = baseUrl cfg @ ''/builds/'' @ buildId cfg @ ''/deploy/'' @ environment cfg,
      headers = client_headers cfg, json = [(''status'', status cfg)]\<rparr>"

text \<open>
  The two cases of the \<open>switch\<close> return the events performed and what was thrown, if
  anything. Lines 38 to 60:
\<close>

definition report_build :: "client \<Rightarrow> InvocationConfig \<Rightarrow> event list \<times> thrown option" where
  "report_build client cfg =
     (let sent = [Info (''Reporting build '' @ buildId cfg @ '' to GitLaunch...''),
                  Request (report_build_request cfg)]
      in case client (report_build_request cfg) of
           Inl e \<Rightarrow> (sent, Some e)
         | Inr response \<Rightarrow>
             if statusCode response = 201 \<or> statusCode response = 200 then
               (let logged = sent @ [Info (''Build '' @ buildId cfg @ '' reported successfully'')]
                in if result response = JNull then
                     (logged, Some (Error (cannot_read ''null'' ''buildId'')))
                   else
                     (logged @
                        [SetOutput ''build-id'' (of_field (field (result response) ''buildId'')),
                         SetOutput ''deployment-status''
                           (JSON_stringify (field (result response) ''deployments''))],
                      None))
             else
               (sent,
                Some (new_Error (or_else (field (result response) ''error'')
                   (''Failed with status '' @ number_to_string (statusCode response))))))"

text \<open>Lines 62 to 101:\<close>

definition update_status :: "client \<Rightarrow> InvocationConfig \<Rightarrow> event list \<times> thrown option" where
  "update_status client cfg =
     (if environment cfg = [] then
        ([], Some (Error ''environment is required for update-status action''))
      else if status cfg = [] then
        ([], Some (Error ''status is required for update-status action''))
      else if status cfg \<notin> set validStatuses then
        ([], Some (Error (''Invalid status: '' @ status cfg @ ''. Must be one of: ''
                            @ join '', '' validStatuses)))
      else
        (let sent = [Info (''Updating deployment status for build '' @ buildId cfg @ '' in ''
                             @ environment cfg @ '' to '' @ status cfg @ ''...''),
                     Request (update_status_request cfg)]
         in case client (update_status_request cfg) of
              Inl e \<Rightarrow> (sent, Some e)
            | Inr response \<Rightarrow>
                if statusCode response = 200 then
                  (let logged = sent @ [Info ''Deployment status updated successfully'']
                   in if result response = JNull then
                        (logged, Some (Error (cannot_read ''null'' ''buildId'')))
                      else
                        (let set1 = logged @
                               [SetOutput ''build-id''
                                  (of_field (field (result response) ''buildId''))]
                         in case field (result response) ''deployments'' of
                              None \<Rightarrow>
                                (set1, Some (Error (cannot_read ''undefined'' (environment cfg))))
                            | Some d \<Rightarrow>
                                if d = JNull then
                                  (set1, Some (Error (cannot_read ''null'' (environment cfg))))
                                else
                                  (set1 @
                                     [SetOutput ''deployment-status''
                                        (lookup_or d (environment cfg) (status cfg))],
                                   None)))
                else
                  (sent,
                   Some (new_Error (or_else (field (result response) ''error'')
                      (''Failed with status '' @ number_to_string (statusCode response)))))))"

text \<open>Lines 37 to 107: the \<open>switch\<close> on the action.\<close>

definition dispatch :: "client \<Rightarrow> InvocationConfig \<Rightarrow> event list \<times> thrown option" where
  "dispatch client cfg =
     (if action cfg = ''report-build'' then report_build client cfg
      else if action cfg = ''update-status'' then update_status client cfg
      else ([], Some (Error (''Invalid action: '' @ action cfg
                @ ''. Must be 'report-build' or 'update-status'' @ apostrophe))))"

text \<open>Lines 108 to 114: what the \<open>catch\<close> passes to \<open>core.setFailed\<close>.\<close>

definition failure_message :: "thrown \<Rightarrow> string" where
  "failure_message e = (case e of Error m \<Rightarrow> m | NotAnError \<Rightarrow> ''An unexpected error occurred'')"

definition run :: "(string \<Rightarrow> bool \<Rightarrow> thrown + string) \<Rightarrow> client \<Rightarrow> event list" where
  "run getInput client =
     (case resolve_inputs getInput of
        Inl e \<Rightarrow> [SetFailed (failure_message e)]
      | Inr cfg \<Rightarrow>
          (case dispatch client cfg of
             (log, None) \<Rightarrow> log
           | (log, Some e) \<Rightarrow> log @ [SetFailed (failure_message e)]))"

subsection \<open>Reading a log\<close>

fun requests_of :: "event list \<Rightarrow> request list" where
  "requests_of [] = []"
| "requests_of (Request r # es) = r # requests_of es"
| "requests_of (e # es) = requests_of es"

fun outputs_of :: "event list \<Rightarrow> (string \<times> jsvalue) list" where
  "outputs_of [] = []"
| "outputs_of (SetOutput n v # es) = (n, v) # outputs_of es"
| "outputs_of (e # es) = outputs_of es"

fun failures_of :: "event list \<Rightarrow> string list" where
  "failures_of [] = []"
| "failures_of (SetFailed m # es) = m # failures_of es"
| "failures_of (e # es) = failures_of es"

subsection \<open>The fixtures of \<open>src/index.test.ts\<close>\<close>

text \<open>
  The tests replace \<open>core.getInput\<close> by a table lookup that ignores \<open>required\<close> and
  gives the empty string for a missing name, and the client by one that answers every
  request with a fixed response.
\<close>

definition mockGetInput :: "(string \<times> string) list \<Rightarrow> string \<Rightarrow> bool \<Rightarrow> thrown + string" where
  "mockGetInput inputs name required =
     Inr (case map_of inputs name of None \<Rightarrow> [] | Some v \<Rightarrow> v)"

definition mockResolvedValue :: "response \<Rightarrow> client" where
  "mockResolvedValue rp = (\<lambda>rq. Inr rp)"

definition test_inputs :: "string \<Rightarrow> string \<Rightarrow> string \<Rightarrow> (string \<times> string) list" where
  "test_inputs act env st =
     [(''api-key'', ''pk_test_key''), (''api-url'', ''https://gitlaunch.io''),
      (''service-id'', ''service123''), (''action'', act), (''build-id'', ''abc123''),
      (''environment'', env), (''status'', st)]"

definition test_config :: "string \<Rightarrow> string \<Rightarrow> string \<Rightarrow> InvocationConfig" where
  "test_config act env st =
     \<lparr>apiKey = ''pk_test_key'', apiUrl = ''https://gitlaunch.io'', serviceId = ''service123'',
      action = act, buildId = ''abc123'', environment = env, status = st\<rparr>"

definition build_body :: "(string \<times> json_value) list \<Rightarrow> json_value" where
  "build_body ds =
     JObj [(''_id'', JStr ''build-id-123''), (''buildId'', JStr ''abc123''),
           (''deployments'', JObj ds), (''createdAt'', JStr ''2024-01-01T00:00:00Z''),
           (''updatedAt'', JStr ''2024-01-01T00:00:00Z'')]"

definition error_body :: "string \<Rightarrow> json_value" where
  "error_body e = JObj [(''error'', JStr e)]"


section \<open>Properties\<close>

subsection \<open>Auxiliary facts\<close>

lemma run_resolved:
  "resolve_inputs getInput = Inr cfg \<Longrightarrow>
   run getInput client =
     (case dispatch client cfg of
        (log, None) \<Rightarrow> log
      | (log, Some e) \<Rightarrow> log @ [SetFailed (failure_message e)])"
  by (simp add: run_def)


lemma resolve_mock:
  "resolve_inputs (mockGetInput (test_inputs act env st)) = Inr (test_config act env st)"
  by (simp add: resolve_inputs_def mockGetInput_def test_inputs_def test_config_def)

lemma join_validStatuses:
  "join '', '' validStatuses = ''deploying, deployed, error, cancelled''"
  by (simp add: validStatuses_def)

lemma set_validStatuses:
  "set validStatuses = {''deploying'', ''deployed'', ''error'', ''cancelled''}"
  by (simp add: validStatuses_def)

lemma requests_of_append: "requests_of (xs @ ys) = requests_of xs @ requests_of ys"
  by (induction xs rule: requests_of.induct) simp_all



lemma number_201: "number_to_string 201 = ''201''"
  by code_simp

lemma number_204: "number_to_string 204 = ''204''"
  by code_simp

text \<open>The message of a remote rejection, from the \<open>error\<close> field read and the fallback.\<close>

lemma rejection_message:
  "failure_message (new_Error (or_else e fallback)) =
     (case e of
        None \<Rightarrow> fallback
      | Some v \<Rightarrow>
          if truthy v then
            (case to_string v of
               Some m \<Rightarrow> m
             | None \<Rightarrow> ''Cannot convert object to primitive value'')
          else fallback)"
  by (simp add: failure_message_def new_Error_def or_else_def split: option.split)


text \<open>The events of an \<open>update-status\<close> run whose inputs pass the three checks.\<close>

lemma run_update_status:
  assumes "resolve_inputs getInput = Inr cfg"
    and "action cfg = ''update-status''"
    and "environment cfg \<noteq> []"
    and "status cfg \<in> {''deploying'', ''deployed'', ''error'', ''cancelled''}"
  shows "run getInput client =
     [Info (''Updating deployment status for build '' @ buildId cfg @ '' in ''
              @ environment cfg @ '' to '' @ status cfg @ ''...''),
      Request (update_status_request cfg)] @
     (case client (update_status_request cfg) of
        Inl e \<Rightarrow> [SetFailed (failure_message e)]
      | Inr rp \<Rightarrow>
          if statusCode rp = 200 then
            Info ''Deployment status updated successfully'' #
            (if result rp = JNull then [SetFailed (cannot_read ''null'' ''buildId'')]
             else
               SetOutput ''build-id'' (of_field (field (result rp) ''buildId'')) #
               (case field (result rp) ''deployments'' of
                  None \<Rightarrow> [SetFailed (cannot_read ''undefined'' (environment cfg))]
                | Some d \<Rightarrow>
                    if d = JNull then [SetFailed (cannot_read ''null'' (environment cfg))]
                    else [SetOutput ''deployment-status''
                            (lookup_or d (environment cfg) (status cfg))]))
          else [SetFailed (failure_message (new_Error (or_else (field (result rp) ''error'')
                  (''Failed with status '' @ number_to_string (statusCode rp)))))])"
proof -
  have "status cfg \<noteq> []" "status cfg \<in> set validStatuses"
    using assms(4) by (auto simp add: set_validStatuses)
  then show ?thesis
    using assms(1,2,3)
    by (simp add: run_resolved dispatch_def update_status_def Let_def failure_message_def
        split: sum.split option.split)
qed

text \<open>The events of a \<open>report-build\<close> run.\<close>

lemma run_report_build:
  assumes "resolve_inputs getInput = Inr cfg"
    and "action cfg = ''report-build''"
  shows "run getInput client =
     [Info (''Reporting build '' @ buildId cfg @ '' to GitLaunch...''),
      Request (report_build_request cfg)] @
     (case client (report_build_request cfg) of
        Inl e \<Rightarrow> [SetFailed (failure_message e)]
      | Inr rp \<Rightarrow>
          if statusCode rp = 201 \<or> statusCode rp = 200 then
            Info (''Build '' @ buildId cfg @ '' reported successfully'') #
            (if result rp = JNull then [SetFailed (cannot_read ''null'' ''buildId'')]
             else
               [SetOutput ''build-id'' (of_field (field (result rp) ''buildId'')),
                SetOutput ''deployment-status''
                  (JSON_stringify (field (result rp) ''deployments''))])
          else [SetFailed (failure_message (new_Error (or_else (field (result rp) ''error'')
                  (''Failed with status '' @ number_to_string (statusCode rp)))))])"
  using assms
  by (simp add: run_resolved dispatch_def report_build_def Let_def failure_message_def
      split: sum.split option.split)



subsection \<open>Validation of an \<open>update-status\<close> invocation\<close>

text \<open>
  Claim C4. For every invocation with action \<open>update-status\<close>, a non-empty environment
  and a non-empty status outside \<open>deploying\<close>, \<open>deployed\<close>, \<open>error\<close>, \<open>cancelled\<close>,
  the invocation fails with exactly the message
  \<open>Invalid status: {status}. Must be one of: deploying, deployed, error, cancelled\<close> and
  issues no network call: the failure is the only event of the run.
\<close>

theorem invalid_status_fails:
  assumes "resolve_inputs getInput = Inr cfg"
    and "action cfg = ''update-status''"
    and "environment cfg \<noteq> []"
    and "status cfg \<noteq> []"
    and "status cfg \<notin> {''deploying'', ''deployed'', ''error'', ''cancelled''}"
  shows "run getInput client =
           [SetFailed (''Invalid status: '' @ status cfg
              @ ''. Must be one of: deploying, deployed, error, cancelled'')]"
  using assms
  by (simp add: run_resolved dispatch_def update_status_def join_validStatuses
      set_validStatuses failure_message_def)

theorem invalid_status_fails_witness:
  "resolve_inputs (mockGetInput (test_inputs ''update-status'' ''staging'' ''invalid-status''))
     = Inr (test_config ''update-status'' ''staging'' ''invalid-status'') \<and>
   run (mockGetInput (test_inputs ''update-status'' ''staging'' ''invalid-status''))
       (mockResolvedValue \<lparr>statusCode = 200, result = build_body []\<rparr>) =
     [SetFailed
        ''Invalid status: invalid-status. Must be one of: deploying, deployed, error, cancelled'']"
  using invalid_status_fails [OF resolve_mock,
      of "''update-status''" "''staging''" "''invalid-status''"
      "mockResolvedValue \<lparr>statusCode = 200, result = build_body []\<rparr>"]
  by (simp add: resolve_mock test_config_def)

text \<open>
  Claim C5. For every invocation with action \<open>update-status\<close>: if the environment is
  empty the invocation fails with exactly \<open>environment is required for update-status
  action\<close>; if the environment is non-empty and the status is empty it fails with exactly
  \<open>status is required for update-status action\<close>. In both cases no network call is
  issued: the failure is the only event of the run.
\<close>

theorem update_status_required_fields:
  assumes "resolve_inputs getInput = Inr cfg"
    and "action cfg = ''update-status''"
  shows "(environment cfg = [] \<longrightarrow>
            run getInput client =
              [SetFailed ''environment is required for update-status action'']) \<and>
         (environment cfg \<noteq> [] \<and> status cfg = [] \<longrightarrow>
            run getInput client =
              [SetFailed ''status is required for update-status action''])"
  using assms
  by (simp add: run_resolved dispatch_def update_status_def failure_message_def)

theorem update_status_required_fields_witness:
  "run (mockGetInput (test_inputs ''update-status'' [] ''deployed''))
       (mockResolvedValue \<lparr>statusCode = 200, result = build_body []\<rparr>) =
     [SetFailed ''environment is required for update-status action''] \<and>
   run (mockGetInput (test_inputs ''update-status'' ''staging'' []))
       (mockResolvedValue \<lparr>statusCode = 200, result = build_body []\<rparr>) =
     [SetFailed ''status is required for update-status action'']"
  using update_status_required_fields [OF resolve_mock,
      of "''update-status''" "[]" "''deployed''"
      "mockResolvedValue \<lparr>statusCode = 200, result = build_body []\<rparr>"]
    update_status_required_fields [OF resolve_mock,
      of "''update-status''" "''staging''" "[]"
      "mockResolvedValue \<lparr>statusCode = 200, result = build_body []\<rparr>"]
  by (simp add: test_config_def)

text \<open>
  Claim C10. For action \<open>update-status\<close> the checks run in a fixed order: environment
  non-empty, then status non-empty, then status in the enumeration. The message reported
  is that of the first check that fails; in particular, when both the environment and
  the status are empty, it is the message about the environment.
\<close>

theorem validation_order:
  assumes "resolve_inputs getInput = Inr cfg"
    and "action cfg = ''update-status''"
    and "find fst
           [(environment cfg = [], ''environment is required for update-status action''),
            (status cfg = [], ''status is required for update-status action''),
            (status cfg \<notin> {''deploying'', ''deployed'', ''error'', ''cancelled''},
             ''Invalid status: '' @ status cfg
               @ ''. Must be one of: deploying, deployed, error, cancelled'')]
         = Some (failing, m)"
  shows "run getInput client = [SetFailed m] \<and>
         (environment cfg = [] \<and> status cfg = [] \<longrightarrow>
            m = ''environment is required for update-status action'')"
  using assms
  by (auto simp add: run_resolved dispatch_def update_status_def failure_message_def
      join_validStatuses set_validStatuses split: if_splits)

theorem validation_order_witness:
  "find fst
     [(environment (test_config ''update-status'' [] []) = [],
       ''environment is required for update-status action''),
      (status (test_config ''update-status'' [] []) = [],
       ''status is required for update-status action''),
      (status (test_config ''update-status'' [] [])
         \<notin> {''deploying'', ''deployed'', ''error'', ''cancelled''},
       ''Invalid status: '' @ status (test_config ''update-status'' [] [])
         @ ''. Must be one of: deploying, deployed, error, cancelled'')]
     = Some (True, ''environment is required for update-status action'') \<and>
   run (mockGetInput (test_inputs ''update-status'' [] []))
       (mockResolvedValue \<lparr>statusCode = 200, result = build_body []\<rparr>) =
     [SetFailed ''environment is required for update-status action'']"
  using validation_order [OF resolve_mock,
      of "''update-status''" "[]" "[]" True
      "''environment is required for update-status action''"
      "mockResolvedValue \<lparr>statusCode = 200, result = build_body []\<rparr>"]
  by (simp add: test_config_def)

subsection \<open>The action selector\<close>

text \<open>
  Claim C6. For every invocation whose action is neither \<open>report-build\<close> nor
  \<open>update-status\<close>, the invocation fails with exactly the message
  \<open>Invalid action: {action}. Must be 'report-build' or 'update-status'\<close> and issues no
  network call: the failure is the only event of the run.
\<close>

theorem invalid_action_fails:
  assumes "resolve_inputs getInput = Inr cfg"
    and "action cfg \<noteq> ''report-build''"
    and "action cfg \<noteq> ''update-status''"
  shows "run getInput client =
           [SetFailed (''Invalid action: '' @ action cfg
              @ ''. Must be 'report-build' or 'update-status'' @ [CHR 0x27])]"
  using assms
  by (simp add: run_resolved dispatch_def failure_message_def apostrophe_def)

theorem invalid_action_fails_witness:
  "action (test_config ''invalid-action'' [] []) \<noteq> ''report-build'' \<and>
   action (test_config ''invalid-action'' [] []) \<noteq> ''update-status'' \<and>
   run (mockGetInput (test_inputs ''invalid-action'' [] []))
       (mockResolvedValue \<lparr>statusCode = 200, result = build_body []\<rparr>) =
     [SetFailed (''Invalid action: invalid-action. Must be 'report-build' or 'update-status''
                   @ [CHR 0x27])]"
  using invalid_action_fails [OF resolve_mock,
      of "''invalid-action''" "[]" "[]"
      "mockResolvedValue \<lparr>statusCode = 200, result = build_body []\<rparr>"]
  by (simp add: test_config_def)

subsection \<open>The request of each action and the mapping of its response\<close>




text \<open>
  Claim C3, as amended. For every invocation with action \<open>report-build\<close> whose inputs
  were read, the run issues exactly one request, with no further validation: POST to
  \<open>{apiUrl}/api/v1/services/{serviceId}/builds\<close> with body \<open>{buildId}\<close>. It ends
  without a failure if and only if the client returns a response whose statusCode is
  200 or 201 and whose body is not \<open>null\<close>. It then emits \<open>build-id\<close> =
  \<open>body.buildId\<close> and \<open>deployment-status\<close> = the JSON serialization of
  \<open>body.deployments\<close>.
\<close>

theorem report_build_outcome:
  assumes "resolve_inputs getInput = Inr cfg"
    and "action cfg = ''report-build''"
  shows "requests_of (run getInput client) =
           [\<lparr>http_method = POST,
             url = apiUrl cfg @ ''/api/v1/services/'' @ serviceId cfg @ ''/builds'',
             headers = [(''Authorization'', ''Bearer '' @ apiKey cfg),
                        (''Content-Type'', ''application/json'')],
             json = [(''buildId'', buildId cfg)]\<rparr>] \<and>
         (failures_of (run getInput client) = [] \<longleftrightarrow>
            (\<exists>rp. client (report_build_request cfg) = Inr rp
               \<and> (statusCode rp = 200 \<or> statusCode rp = 201) \<and> result rp \<noteq> JNull)) \<and>
         (\<forall>rp. client (report_build_request cfg) = Inr rp
               \<and> (statusCode rp = 200 \<or> statusCode rp = 201) \<and> result rp \<noteq> JNull \<longrightarrow>
            outputs_of (run getInput client) =
              [(''build-id'', of_field (field (result rp) ''buildId'')),
               (''deployment-status'', JSON_stringify (field (result rp) ''deployments''))])"
proof -
  note r = run_report_build [OF assms, of client]
  have 1: "requests_of (run getInput client) = [report_build_request cfg]"
    unfolding r by (simp split: sum.split option.split)
  have 2: "failures_of (run getInput client) = [] \<longleftrightarrow>
            (\<exists>rp. client (report_build_request cfg) = Inr rp
               \<and> (statusCode rp = 200 \<or> statusCode rp = 201) \<and> result rp \<noteq> JNull)"
    unfolding r by (auto split: sum.split option.split)
  have 3: "outputs_of (run getInput client) =
              [(''build-id'', of_field (field (result rp) ''buildId'')),
               (''deployment-status'', JSON_stringify (field (result rp) ''deployments''))]"
    if "client (report_build_request cfg) = Inr rp" "statusCode rp = 200 \<or> statusCode rp = 201"
      "result rp \<noteq> JNull" for rp
    unfolding r using that by auto
  show ?thesis
    using 1 2 3
    by (simp add: report_build_request_def baseUrl_def client_headers_def)
qed

text \<open>
  The round trip of the specification: statusCode 201 and body
  \<open>{buildId: "abc123", deployments: {}}\<close> give \<open>build-id\<close> = \<open>abc123\<close> and
  \<open>deployment-status\<close> = \<open>{}\<close>.
\<close>

theorem report_build_outcome_witness:
  "resolve_inputs (mockGetInput (test_inputs ''report-build'' [] []))
     = Inr (test_config ''report-build'' [] []) \<and>
   action (test_config ''report-build'' [] []) = ''report-build'' \<and>
   requests_of (run (mockGetInput (test_inputs ''report-build'' [] []))
      (mockResolvedValue \<lparr>statusCode = 201, result = build_body []\<rparr>)) =
     [\<lparr>http_method = POST,
       url = ''https://gitlaunch.io/api/v1/services/service123/builds'',
       headers = [(''Authorization'', ''Bearer pk_test_key''),
                  (''Content-Type'', ''application/json'')],
       json = [(''buildId'', ''abc123'')]\<rparr>] \<and>
   failures_of (run (mockGetInput (test_inputs ''report-build'' [] []))
      (mockResolvedValue \<lparr>statusCode = 201, result = build_body []\<rparr>)) = [] \<and>
   outputs_of (run (mockGetInput (test_inputs ''report-build'' [] []))
      (mockResolvedValue \<lparr>statusCode = 201, result = build_body []\<rparr>)) =
     [(''build-id'', Value (JStr ''abc123'')), (''deployment-status'', Value (JStr ''{}''))]"
proof -
  have a: "action (test_config ''report-build'' [] []) = ''report-build''"
    by (simp add: test_config_def)
  show ?thesis
    using report_build_outcome [OF resolve_mock a,
        of "mockResolvedValue \<lparr>statusCode = 201, result = build_body []\<rparr>"]
    by (simp add: resolve_mock test_config_def mockResolvedValue_def build_body_def
        of_field_def field_def JSON_stringify_def)
qed

text \<open>
  The claim as written fails on a \<open>null\<close> body: with statusCode 201 the run fails, on
  the \<open>TypeError\<close> of reading \<open>buildId\<close>, and sets no output.
\<close>

theorem report_build_counterexample:
  "statusCode \<lparr>statusCode = 201, result = JNull\<rparr> = 201 \<and>
   outputs_of (run (mockGetInput (test_inputs ''report-build'' [] []))
      (mockResolvedValue \<lparr>statusCode = 201, result = JNull\<rparr>)) = [] \<and>
   failures_of (run (mockGetInput (test_inputs ''report-build'' [] []))
      (mockResolvedValue \<lparr>statusCode = 201, result = JNull\<rparr>)) =
     [''Cannot read properties of null (reading 'buildId'' @ [CHR 0x27] @ '')'']"
  by (simp add: run_report_build [OF resolve_mock] test_config_def mockResolvedValue_def
      cannot_read_def apostrophe_def)

text \<open>
  Claim C2, as amended. A response is treated as success-shaped only when its statusCode
  is a success code of the action, 200 or 201 for \<open>report-build\<close> and 200 for
  \<open>update-status\<close>: then \<open>build-id\<close> is set from the \<open>buildId\<close> of a body that is
  not \<open>null\<close>. Every response with another statusCode, the other codes of the 2xx
  range included, is treated as error-shaped: no output is set, one failure is
  signalled, and the \<open>error\<close> field is read defensively, a \<open>null\<close> body or an absent
  field giving \<open>Failed with status {statusCode}\<close>.
\<close>

theorem response_classification:
  assumes "resolve_inputs getInput = Inr cfg"
    and "action cfg = ''report-build'' \<and> client (report_build_request cfg) = Inr rp
         \<or> action cfg = ''update-status'' \<and> environment cfg \<noteq> []
           \<and> status cfg \<in> {''deploying'', ''deployed'', ''error'', ''cancelled''}
           \<and> client (update_status_request cfg) = Inr rp"
  shows "if action cfg = ''report-build'' \<and> (statusCode rp = 200 \<or> statusCode rp = 201)
            \<or> action cfg = ''update-status'' \<and> statusCode rp = 200
         then result rp \<noteq> JNull \<longrightarrow>
                (''build-id'', of_field (field (result rp) ''buildId''))
                  \<in> set (outputs_of (run getInput client))
         else outputs_of (run getInput client) = []
            \<and> length (failures_of (run getInput client)) = 1
            \<and> (field (result rp) ''error'' = None \<longrightarrow>
                 failures_of (run getInput client) =
                   [''Failed with status '' @ number_to_string (statusCode rp)])"
  using assms(2)
proof (elim disjE conjE)
  assume a: "action cfg = ''report-build''"
    and c: "client (report_build_request cfg) = Inr rp"
  show ?thesis
    unfolding run_report_build [OF assms(1) a, of client] c
    by (auto simp add: a rejection_message)
next
  assume a: "action cfg = ''update-status''" and e: "environment cfg \<noteq> []"
    and s: "status cfg \<in> {''deploying'', ''deployed'', ''error'', ''cancelled''}"
    and c: "client (update_status_request cfg) = Inr rp"
  show ?thesis
    unfolding run_update_status [OF assms(1) a e s, of client] c
    by (auto simp add: a rejection_message split: option.split)
qed

theorem response_classification_witness:
  "resolve_inputs (mockGetInput (test_inputs ''report-build'' [] []))
     = Inr (test_config ''report-build'' [] []) \<and>
   (''build-id'', Value (JStr ''abc123'')) \<in> set (outputs_of
      (run (mockGetInput (test_inputs ''report-build'' [] []))
         (mockResolvedValue \<lparr>statusCode = 200, result = build_body []\<rparr>))) \<and>
   outputs_of (run (mockGetInput (test_inputs ''update-status'' ''staging'' ''deployed''))
      (mockResolvedValue \<lparr>statusCode = 201, result = JNull\<rparr>)) = [] \<and>
   failures_of (run (mockGetInput (test_inputs ''update-status'' ''staging'' ''deployed''))
      (mockResolvedValue \<lparr>statusCode = 201, result = JNull\<rparr>)) = [''Failed with status 201'']"
  using response_classification [OF resolve_mock, of "''report-build''" "[]" "[]"
      "mockResolvedValue \<lparr>statusCode = 200, result = build_body []\<rparr>"
      "\<lparr>statusCode = 200, result = build_body []\<rparr>"]
    response_classification [OF resolve_mock, of "''update-status''" "''staging''" "''deployed''"
      "mockResolvedValue \<lparr>statusCode = 201, result = JNull\<rparr>"
      "\<lparr>statusCode = 201, result = JNull\<rparr>"]
  by (simp add: resolve_mock test_config_def mockResolvedValue_def build_body_def of_field_def
      field_def number_201)

text \<open>
  The claim as written fails at statusCode 204, which is in the 2xx range: a
  \<open>report-build\<close> run whose response has that code and a success-shaped body sets no
  output and fails with the generic message.
\<close>

theorem response_classification_counterexample:
  "200 \<le> statusCode \<lparr>statusCode = 204, result = build_body []\<rparr> \<and>
   statusCode \<lparr>statusCode = 204, result = build_body []\<rparr> < 300 \<and>
   outputs_of (run (mockGetInput (test_inputs ''report-build'' [] []))
      (mockResolvedValue \<lparr>statusCode = 204, result = build_body []\<rparr>)) = [] \<and>
   failures_of (run (mockGetInput (test_inputs ''report-build'' [] []))
      (mockResolvedValue \<lparr>statusCode = 204, result = build_body []\<rparr>)) =
     [''Failed with status 204'']"
  by (simp add: run_report_build [OF resolve_mock] test_config_def mockResolvedValue_def
      build_body_def rejection_message field_def number_204)

subsection \<open>Failures\<close>

text \<open>
  Claim C7. For every invocation of either action whose response has a statusCode that
  is not a success code of that action (200 and 201 for \<open>report-build\<close>, 200 for
  \<open>update-status\<close>), the invocation fails with the message \<open>body.error\<close> when that
  field is present and non-empty, and otherwise with exactly
  \<open>Failed with status {statusCode}\<close>. For a field that is not a string, present and
  non-empty mean truthy, and the message is the field converted to a string.
\<close>

theorem remote_rejection_message:
  assumes "resolve_inputs getInput = Inr cfg"
    and "action cfg = ''report-build'' \<and> client (report_build_request cfg) = Inr rp
           \<and> statusCode rp \<noteq> 200 \<and> statusCode rp \<noteq> 201
         \<or> action cfg = ''update-status'' \<and> environment cfg \<noteq> []
           \<and> status cfg \<in> {''deploying'', ''deployed'', ''error'', ''cancelled''}
           \<and> client (update_status_request cfg) = Inr rp \<and> statusCode rp \<noteq> 200"
  shows "failures_of (run getInput client) =
           [case field (result rp) ''error'' of
              None \<Rightarrow> ''Failed with status '' @ number_to_string (statusCode rp)
            | Some v \<Rightarrow>
                if truthy v then
                  (case to_string v of
                     Some m \<Rightarrow> m
                   | None \<Rightarrow> ''Cannot convert object to primitive value'')
                else ''Failed with status '' @ number_to_string (statusCode rp)] \<and>
         (\<forall>e. field (result rp) ''error'' = Some (JStr e) \<longrightarrow>
            failures_of (run getInput client) =
              [if e = [] then ''Failed with status '' @ number_to_string (statusCode rp)
               else e])"
proof -
  have "failures_of (run getInput client) =
          [failure_message (new_Error (or_else (field (result rp) ''error'')
              (''Failed with status '' @ number_to_string (statusCode rp))))]"
    using assms(2)
  proof (elim disjE conjE)
    assume a: "action cfg = ''report-build''"
      and c: "client (report_build_request cfg) = Inr rp"
      and n: "statusCode rp \<noteq> 200" "statusCode rp \<noteq> 201"
    show ?thesis
      unfolding run_report_build [OF assms(1) a, of client] c
      using n by simp
  next
    assume a: "action cfg = ''update-status''" and e: "environment cfg \<noteq> []"
      and s: "status cfg \<in> {''deploying'', ''deployed'', ''error'', ''cancelled''}"
      and c: "client (update_status_request cfg) = Inr rp"
      and n: "statusCode rp \<noteq> 200"
    show ?thesis
      unfolding run_update_status [OF assms(1) a e s, of client] c
      using n by simp
  qed
  then have f: "failures_of (run getInput client) =
           [case field (result rp) ''error'' of
              None \<Rightarrow> ''Failed with status '' @ number_to_string (statusCode rp)
            | Some v \<Rightarrow>
                if truthy v then
                  (case to_string v of
                     Some m \<Rightarrow> m
                   | None \<Rightarrow> ''Cannot convert object to primitive value'')
                else ''Failed with status '' @ number_to_string (statusCode rp)]"
    by (simp only: rejection_message)
  have "failures_of (run getInput client) =
          [if e = [] then ''Failed with status '' @ number_to_string (statusCode rp) else e]"
    if "field (result rp) ''error'' = Some (JStr e)" for e
    unfolding f that by (simp add: truthy_def)
  with f show ?thesis
    by blast
qed

text \<open>
  The rejected report of the tests (statusCode 401, body \<open>{error: "Invalid API key"}\<close>),
  and an update answered by statusCode 204 with no body.
\<close>

theorem remote_rejection_message_witness:
  "failures_of (run (mockGetInput (test_inputs ''report-build'' [] []))
      (mockResolvedValue \<lparr>statusCode = 401, result = error_body ''Invalid API key''\<rparr>))
     = [''Invalid API key''] \<and>
   failures_of (run (mockGetInput (test_inputs ''update-status'' ''staging'' ''deployed''))
      (mockResolvedValue \<lparr>statusCode = 204, result = JNull\<rparr>))
     = [''Failed with status 204'']"
  using remote_rejection_message [OF resolve_mock, of "''report-build''" "[]" "[]"
      "mockResolvedValue \<lparr>statusCode = 401, result = error_body ''Invalid API key''\<rparr>"
      "\<lparr>statusCode = 401, result = error_body ''Invalid API key''\<rparr>"]
    remote_rejection_message [OF resolve_mock, of "''update-status''" "''staging''" "''deployed''"
      "mockResolvedValue \<lparr>statusCode = 204, result = JNull\<rparr>"
      "\<lparr>statusCode = 204, result = JNull\<rparr>"]
  by (simp add: test_config_def mockResolvedValue_def error_body_def field_def truthy_def
      number_204)






subsection \<open>Inputs that \<open>report-build\<close> does not use\<close>

text \<open>
  Claim C9. For action \<open>report-build\<close> the inputs \<open>environment\<close> and \<open>status\<close> are
  ignored: two invocations whose inputs differ only in these two fields perform the same
  events against the same client, hence issue the same request and, for the same
  response, produce the same outputs and the same success or failure.
\<close>

theorem report_build_ignores_environment_and_status:
  assumes "resolve_inputs getInput = Inr cfg"
    and "resolve_inputs getInput' = Inr cfg'"
    and "action cfg = ''report-build''"
    and "cfg' = cfg\<lparr>environment := environment cfg', status := status cfg'\<rparr>"
  shows "run getInput client = run getInput' client"
proof -
  have a: "action cfg' = ''report-build''"
    by (subst assms(4)) (simp add: assms(3))
  have rq: "report_build_request cfg' = report_build_request cfg"
    by (subst assms(4)) (simp add: report_build_request_def baseUrl_def client_headers_def)
  have b: "buildId cfg' = buildId cfg"
    by (subst assms(4)) simp
  have "report_build client cfg' = report_build client cfg"
    unfolding report_build_def rq b ..
  then show ?thesis
    using assms(1,2,3) a by (simp add: run_resolved dispatch_def)
qed

theorem report_build_ignores_environment_and_status_witness:
  "test_config ''report-build'' ''staging'' ''deployed'' =
     (test_config ''report-build'' [] [])
       \<lparr>environment := environment (test_config ''report-build'' ''staging'' ''deployed''),
        status := status (test_config ''report-build'' ''staging'' ''deployed'')\<rparr> \<and>
   run (mockGetInput (test_inputs ''report-build'' [] []))
       (mockResolvedValue \<lparr>statusCode = 201, result = build_body []\<rparr>) =
   run (mockGetInput (test_inputs ''report-build'' ''staging'' ''deployed''))
       (mockResolvedValue \<lparr>statusCode = 201, result = build_body []\<rparr>)"
proof -
  have a: "action (test_config ''report-build'' [] []) = ''report-build''"
    by (simp add: test_config_def)
  have d: "test_config ''report-build'' ''staging'' ''deployed'' =
     (test_config ''report-build'' [] [])
       \<lparr>environment := environment (test_config ''report-build'' ''staging'' ''deployed''),
        status := status (test_config ''report-build'' ''staging'' ''deployed'')\<rparr>"
    by (simp add: test_config_def)
  show ?thesis
    using report_build_ignores_environment_and_status [OF resolve_mock resolve_mock a d,
        of "mockResolvedValue \<lparr>statusCode = 201, result = build_body []\<rparr>"] d
    by simp
qed

end
